theory Spec2Isabelle
  imports Main "HOL-Library.AList" "HOL-Library.Sublist"
begin

section \<open>The seed data fetcher (scripts/fetch-seed-data.py)\<close>

text \<open>
  The script downloads a JSON document, samples the array it holds, rewrites three fields
  of every sampled record, writes the sample to a file and validates the file. The
  embedding follows the five functions of the script: \<open>fetch_seed_data\<close>,
  \<open>create_sample_data\<close>, \<open>save_sample_data\<close>, \<open>validate_sample_data\<close> and
  \<open>main\<close>. Python values are untyped, so every operation that Python can refuse
  (\<open>len\<close>, indexing, \<open>in\<close>, \<open>.split\<close>, \<open>//\<close>) returns a sum with the exception on the
  left.
\<close>

subsection \<open>Values and exceptions\<close>

text \<open>
  The values \<open>json.loads\<close> builds: \<open>None\<close>, \<open>bool\<close>, \<open>int\<close>, \<open>str\<close>, \<open>list\<close> and
  \<open>dict\<close> with string keys. A \<open>dict\<close> is an association list in insertion order;
  the dictionaries of a parsed document have distinct keys, and lookup and update act on
  the first entry of a key. A \<open>string\<close> is the sequence of the characters of the Python
  string, as far as \<open>char\<close> has them. Numbers with a fraction or an exponent (Python
  floats) are outside the model.
\<close>

datatype json =
    JNull
  | JBool bool
  | JInt int
  | JStr string
  | JArr "json list"
  | JObj "(string \<times> json) list"

text \<open>
  The exceptions the script can meet. \<open>HTTPStatus\<close> is the \<open>Exception\<close> raised at line 29,
  \<open>URLError\<close> any exception of \<open>urlopen\<close> itself; \<open>Not_a_list\<close>, \<open>No_servers\<close> and
  \<open>Missing_field\<close> are the \<open>ValueError\<close>s of lines 90, 93 and 100; \<open>PrintError\<close> is what a
  \<open>print\<close> raises when the console refuses its text (\<open>UnicodeEncodeError\<close>, \<open>OSError\<close>).
\<close>

datatype error =
    KeyError
  | TypeError
  | AttributeError
  | IndexError
  | ZeroDivisionError
  | HTTPStatus nat
  | URLError
  | JSONDecodeError
  | OSError
  | Not_a_list
  | No_servers
  | Missing_field nat string
  | PrintError

text \<open>
  What the script takes from the Python library and is not in the repository: the parser
  and the printer of the \<open>json\<close> module, \<open>str()\<close> on a value that is not a string (the
  text an f-string inserts for it), \<open>int()\<close> on a command line argument, and \<open>print\<close>.
  \<open>json_loads\<close> is \<open>None\<close> where the parser (or the decoding before it) raises.
  \<open>py_print line values\<close> tells whether the \<open>print\<close> call of \<open>main\<close> at that source line,
  with these values inserted in its text, returns: it raises where the console cannot
  encode the text (the symbols of lines 129 and 143 to 149, a name of line 151 with a
  character the console lacks) or is closed. The text is fixed by the line and the
  values, so this covers every way the calls of one run can fail, whatever the characters.
\<close>

record pylib =
  json_loads :: "string \<Rightarrow> json option"
  json_dumps :: "json \<Rightarrow> string"
  py_str :: "json \<Rightarrow> string"
  py_int :: "string \<Rightarrow> int option"
  py_print :: "nat \<Rightarrow> json list \<Rightarrow> bool"

subsection \<open>Python primitives\<close>

fun py_len :: "json \<Rightarrow> error + nat" where
  "py_len (JArr xs) = Inr (length xs)"
| "py_len (JObj d) = Inr (length d)"
| "py_len (JStr s) = Inr (length s)"
| "py_len _ = Inl TypeError"

text \<open>\<open>range(k)\<close>: empty for \<open>k \<le> 0\<close>.\<close>

definition py_range :: "int \<Rightarrow> int list" where
  "py_range k = map int [0..<nat k]"

text \<open>\<open>a // b\<close> on integers: floor division, \<open>ZeroDivisionError\<close> for \<open>b = 0\<close>.\<close>

definition py_floordiv :: "int \<Rightarrow> int \<Rightarrow> error + int" where
  "py_floordiv a b = (if b = 0 then Inl ZeroDivisionError else Inr (a div b))"

text \<open>
  \<open>x[i]\<close> with an integer \<open>i\<close>: a negative index counts from the end, an index out of
  range raises. A dictionary of a JSON document has no integer key.
\<close>

definition py_index :: "nat \<Rightarrow> int \<Rightarrow> error + nat" where
  "py_index n i =
     (let j = (if i < 0 then int n + i else i)
      in if 0 \<le> j \<and> j < int n then Inr (nat j) else Inl IndexError)"

fun py_getitem :: "json \<Rightarrow> int \<Rightarrow> error + json" where
  "py_getitem (JArr xs) i =
     (case py_index (length xs) i of Inl e \<Rightarrow> Inl e | Inr j \<Rightarrow> Inr (xs ! j))"
| "py_getitem (JStr s) i =
     (case py_index (length s) i of Inl e \<Rightarrow> Inl e | Inr j \<Rightarrow> Inr (JStr [s ! j]))"
| "py_getitem (JObj d) i = Inl KeyError"
| "py_getitem _ i = Inl TypeError"

text \<open>\<open>x[key]\<close> with a string key, as in \<open>server['name']\<close>.\<close>

fun py_getkey :: "json \<Rightarrow> string \<Rightarrow> error + json" where
  "py_getkey (JObj d) k = (case map_of d k of None \<Rightarrow> Inl KeyError | Some v \<Rightarrow> Inr v)"
| "py_getkey _ k = Inl TypeError"

text \<open>
  \<open>key in x\<close> with a string \<open>key\<close>: a key of a dictionary, an element of a list, a
  substring of a string; the other values are not iterable.
\<close>

fun py_contains :: "json \<Rightarrow> string \<Rightarrow> error + bool" where
  "py_contains (JObj d) k = Inr (map_of d k \<noteq> None)"
| "py_contains (JArr xs) k = Inr (JStr k \<in> set xs)"
| "py_contains (JStr s) k = Inr (sublist k s)"
| "py_contains _ k = Inl TypeError"

text \<open>Truthiness, as \<open>not x\<close> tests it.\<close>

fun py_truthy :: "json \<Rightarrow> bool" where
  "py_truthy JNull = False"
| "py_truthy (JBool b) = b"
| "py_truthy (JInt i) = (i \<noteq> 0)"
| "py_truthy (JStr s) = (s \<noteq> [])"
| "py_truthy (JArr xs) = (xs \<noteq> [])"
| "py_truthy (JObj d) = (d \<noteq> [])"

text \<open>The text an f-string inserts for a value: a string as it is, anything else by \<open>str()\<close>.\<close>

fun py_format :: "pylib \<Rightarrow> json \<Rightarrow> string" where
  "py_format L (JStr s) = s"
| "py_format L v = py_str L v"

text \<open>\<open>s.split(c, 1)\<close>: one piece without the separator, else the two sides of its first occurrence.\<close>

definition py_split1 :: "string \<Rightarrow> char \<Rightarrow> string list" where
  "py_split1 s c =
     (case dropWhile (\<lambda>x. x \<noteq> c) s of
        [] \<Rightarrow> [s]
      | _ # rest \<Rightarrow> [takeWhile (\<lambda>x. x \<noteq> c) s, rest])"

text \<open>A list comprehension or a loop whose body can raise: left to right, the first exception ends it.\<close>

fun collect :: "('a \<Rightarrow> error + 'b) \<Rightarrow> 'a list \<Rightarrow> error + 'b list" where
  "collect f [] = Inr []"
| "collect f (x # xs) =
     (case f x of
        Inl e \<Rightarrow> Inl e
      | Inr y \<Rightarrow> (case collect f xs of Inl e \<Rightarrow> Inl e | Inr ys \<Rightarrow> Inr (y # ys)))"

subsection \<open>\<open>create_sample_data\<close>\<close>

text \<open>
  Line 58: \<open>original_name.split('/', 1)[-1] if '/' in original_name else original_name\<close>.
  The test \<open>'/' in original_name\<close> comes first; only a string has \<open>.split\<close>.
\<close>

fun namespace_part :: "json \<Rightarrow> error + json" where
  "namespace_part (JStr s) =
     (if CHR ''/'' \<in> set s then Inr (JStr (last (py_split1 s CHR ''/''))) else Inr (JStr s))"
| "namespace_part (JArr xs) =
     (if JStr ''/'' \<in> set xs then Inl AttributeError else Inr (JArr xs))"
| "namespace_part (JObj d) =
     (if map_of d ''/'' \<noteq> None then Inl AttributeError else Inr (JObj d))"
| "namespace_part _ = Inl TypeError"

text \<open>
  The body of the loop of lines 55 to 66 on one \<open>server\<close>: the three assignments in the
  order of the source. An assignment to a key of a dictionary keeps the position of a key
  that is there and appends a new one (\<open>AList.update\<close>).
\<close>

definition set_name :: "pylib \<Rightarrow> json \<Rightarrow> (string \<times> json) list \<Rightarrow> (string \<times> json) list" where
  "set_name L part d =
     AList.update ''name'' (JStr (''io.modelcontextprotocol.anonymous/'' @ py_format L part)) d"

definition set_description :: "pylib \<Rightarrow> (string \<times> json) list \<Rightarrow> (string \<times> json) list" where
  "set_description L d =
     AList.update ''description''
       (JStr (''[DEMO] '' @
          py_format L (case map_of d ''description'' of
                         None \<Rightarrow> JStr ''No description''
                       | Some v \<Rightarrow> v))) d"

definition set_version :: "(string \<times> json) list \<Rightarrow> (string \<times> json) list" where
  "set_version d =
     (case map_of d ''version'' of
        None \<Rightarrow> AList.update ''version'' (JStr ''1.0.0'') d
      | Some v \<Rightarrow> if \<not> py_truthy v then AList.update ''version'' (JStr ''1.0.0'') d else d)"

fun rewrite_server :: "pylib \<Rightarrow> json \<Rightarrow> error + json" where
  "rewrite_server L (JObj d) =
     (case map_of d ''name'' of
        None \<Rightarrow> Inl KeyError
      | Some original_name \<Rightarrow>
          (case namespace_part original_name of
             Inl e \<Rightarrow> Inl e
           | Inr part \<Rightarrow> Inr (JObj (set_version (set_description L (set_name L part d))))))"
| "rewrite_server L _ = Inl TypeError"

text \<open>
  The records of \<open>sample\<close> are the very objects of \<open>full_data\<close>, so the loop changes
  \<open>full_data\<close> as well. \<open>json.loads\<close> builds each element of an array as an object of its
  own, hence two positions of \<open>full_data\<close> never share a record and the only sharing is
  between \<open>sample[j]\<close> and \<open>full_data[sample_indices[j]]\<close>: \<open>store_back\<close> puts every
  rewritten record at the position it was taken from. A string has no objects to change.
\<close>

fun store_back :: "json list \<Rightarrow> int list \<Rightarrow> json list \<Rightarrow> json list" where
  "store_back xs (i # idxs) (s # ss) =
     store_back (case py_index (length xs) i of Inl e \<Rightarrow> xs | Inr j \<Rightarrow> xs[j := s]) idxs ss"
| "store_back xs _ _ = xs"

fun after_loop :: "json \<Rightarrow> int list \<Rightarrow> json list \<Rightarrow> json" where
  "after_loop (JArr xs) idxs ss = JArr (store_back xs idxs ss)"
| "after_loop v idxs ss = v"

text \<open>
  The function returns the sample; the second component is \<open>full_data\<close> as the call
  leaves it. With \<open>total_servers \<le> sample_size\<close> the sample is \<open>full_data\<close> itself.
\<close>

definition create_sample_data :: "pylib \<Rightarrow> json \<Rightarrow> int \<Rightarrow> error + json \<times> json" where
  "create_sample_data L full_data sample_size =
     (case py_len full_data of
        Inl e \<Rightarrow> Inl e
      | Inr total_servers \<Rightarrow>
          if int total_servers \<le> sample_size then Inr (full_data, full_data)
          else
            (case py_floordiv (int total_servers) sample_size of
               Inl e \<Rightarrow> Inl e
             | Inr step \<Rightarrow>
                 let sample_indices = map (\<lambda>i. i * step) (py_range sample_size)
                 in (case collect (py_getitem full_data) sample_indices of
                       Inl e \<Rightarrow> Inl e
                     | Inr sample \<Rightarrow>
                         (case collect (rewrite_server L) sample of
                            Inl e \<Rightarrow> Inl e
                          | Inr sample' \<Rightarrow>
                              Inr (JArr sample', after_loop full_data sample_indices sample')))))"

subsection \<open>\<open>fetch_seed_data\<close>\<close>

text \<open>
  What \<open>urlopen\<close> gives for a URL: an exception of its own (no connection, an HTTP error
  status), or a response with its status and body.
\<close>

datatype http_outcome = Url_error | Http_response nat string

definition SEED_DATA_URL :: string where
  "SEED_DATA_URL =
     ''https://raw.githubusercontent.com/modelcontextprotocol/registry/main/data/seed.json''"

text \<open>
  Lines 26 to 37. The handler prints and raises again, so every exception leaves the
  function. \<open>len(data)\<close> in the message of line 32 is evaluated before the return.
\<close>

definition fetch_seed_data :: "pylib \<Rightarrow> (string \<Rightarrow> http_outcome) \<Rightarrow> string \<Rightarrow> error + json" where
  "fetch_seed_data L net url =
     (case net url of
        Url_error \<Rightarrow> Inl URLError
      | Http_response status body \<Rightarrow>
          if status \<noteq> 200 then Inl (HTTPStatus status)
          else
            (case json_loads L body of
               None \<Rightarrow> Inl JSONDecodeError
             | Some data \<Rightarrow> (case py_len data of Inl e \<Rightarrow> Inl e | Inr n \<Rightarrow> Inr data)))"

subsection \<open>\<open>save_sample_data\<close>\<close>

text \<open>
  The files of the machine, by path. What the file system does to the write is given
  from outside: it works, \<open>mkdir\<close> raises, \<open>open\<close> raises (the file is as before), or
  \<open>json.dump\<close> raises after \<open>open\<close> has truncated the file and some characters have
  reached it. \<open>len(sample_data)\<close> in the message of line 80 comes after the write.
\<close>

type_synonym files = "string \<rightharpoonup> string"

datatype fs_fault = No_fault | Mkdir_fails | Open_fails | Dump_fails nat

definition save_sample_data ::
    "pylib \<Rightarrow> fs_fault \<Rightarrow> json \<Rightarrow> string \<Rightarrow> files \<Rightarrow> error option \<times> files" where
  "save_sample_data L fault sample_data output_file fs =
     (case fault of
        Mkdir_fails \<Rightarrow> (Some OSError, fs)
      | Open_fails \<Rightarrow> (Some OSError, fs)
      | Dump_fails m \<Rightarrow> (Some OSError, fs(output_file \<mapsto> take m (json_dumps L sample_data)))
      | No_fault \<Rightarrow>
          (case py_len sample_data of
             Inl e \<Rightarrow> (Some e, fs(output_file \<mapsto> json_dumps L sample_data))
           | Inr n \<Rightarrow> (None, fs(output_file \<mapsto> json_dumps L sample_data))))"

subsection \<open>\<open>validate_sample_data\<close>\<close>

text \<open>The loops of lines 96 to 100: the fields of one server, then the servers in order.\<close>

fun check_server :: "nat \<Rightarrow> json \<Rightarrow> string list \<Rightarrow> error option" where
  "check_server i server [] = None"
| "check_server i server (field # others) =
     (case py_contains server field of
        Inl e \<Rightarrow> Some e
      | Inr present \<Rightarrow>
          if \<not> present then Some (Missing_field i field) else check_server i server others)"

definition required_fields :: "string list" where
  "required_fields = [''name'', ''description'', ''version'']"

fun check_servers :: "nat \<Rightarrow> json list \<Rightarrow> error option" where
  "check_servers i [] = None"
| "check_servers i (server # rest) =
     (case check_server i server required_fields of
        Some e \<Rightarrow> Some e
      | None \<Rightarrow> check_servers (Suc i) rest)"

text \<open>The body of the \<open>try\<close>, lines 85 to 103: an exception, or the count that line 102 prints.\<close>

definition validate_checks :: "pylib \<Rightarrow> string \<Rightarrow> files \<Rightarrow> error + nat" where
  "validate_checks L sample_file fs =
     (case fs sample_file of
        None \<Rightarrow> Inl OSError
      | Some text \<Rightarrow>
          (case json_loads L text of
             None \<Rightarrow> Inl JSONDecodeError
           | Some data \<Rightarrow>
               (case data of
                  JArr servers \<Rightarrow>
                    if length servers = 0 then Inl No_servers
                    else (case check_servers 0 servers of
                            Some e \<Rightarrow> Inl e
                          | None \<Rightarrow> Inr (length servers))
                | _ \<Rightarrow> Inl Not_a_list)))"

definition validate_sample_data :: "pylib \<Rightarrow> string \<Rightarrow> files \<Rightarrow> bool" where
  "validate_sample_data L sample_file fs =
     (case validate_checks L sample_file fs of Inl e \<Rightarrow> False | Inr n \<Rightarrow> True)"

subsection \<open>\<open>main\<close>\<close>

text \<open>
  \<open>x[:5]\<close>: the first five elements of a list or characters of a string; a dictionary
  refuses a slice (\<open>TypeError\<close>, \<open>KeyError\<close> from Python 3.12 on: an exception either way).
\<close>

fun py_first5 :: "json \<Rightarrow> error + json list" where
  "py_first5 (JArr xs) = Inr (take 5 xs)"
| "py_first5 (JStr s) = Inr (map (\<lambda>c. JStr [c]) (take 5 s))"
| "py_first5 _ = Inl TypeError"

text \<open>
  Lines 150 and 151: \<open>server['name']\<close> and the \<open>print\<close> of each of the first five
  servers, counted from \<open>i\<close>.
\<close>

fun show_servers :: "pylib \<Rightarrow> nat \<Rightarrow> json list \<Rightarrow> error option" where
  "show_servers L i [] = None"
| "show_servers L i (server # rest) =
     (case py_getkey server ''name'' of
        Inl e \<Rightarrow> Some e
      | Inr name \<Rightarrow>
          if py_print L 151 [JInt (int i + 1), name] then show_servers L (Suc i) rest
          else Some PrintError)"

text \<open>
  Lines 143 to 153, the report after a successful validation, statement by statement:
  each \<open>print\<close> can raise, and so can the two \<open>len\<close> of line 145, \<open>os.path.getsize\<close> of
  line 146 (the size of the file at the output path), the slice of line 150 and
  \<open>server['name']\<close> of line 151. The result is the first exception, if there is one.
\<close>

definition report :: "pylib \<Rightarrow> files \<Rightarrow> string \<Rightarrow> json \<Rightarrow> json \<Rightarrow> error option" where
  "report L fs output_file sample_data full_data =
     (if \<not> py_print L 143 [] then Some PrintError
      else if \<not> py_print L 144 [JStr output_file] then Some PrintError
      else
        (case py_len sample_data of
           Inl e \<Rightarrow> Some e
         | Inr n \<Rightarrow>
             (case py_len full_data of
                Inl e \<Rightarrow> Some e
              | Inr m \<Rightarrow>
                  if \<not> py_print L 145 [JInt (int n), JInt (int m)] then Some PrintError
                  else
                    (case fs output_file of
                       None \<Rightarrow> Some OSError
                     | Some text \<Rightarrow>
                         if \<not> py_print L 146 [JInt (int (length text))] then Some PrintError
                         else if \<not> py_print L 149 [] then Some PrintError
                         else
                           (case py_first5 sample_data of
                              Inl e \<Rightarrow> Some e
                            | Inr first \<Rightarrow>
                                (case show_servers L 0 first of
                                   Some e \<Rightarrow> Some e
                                 | None \<Rightarrow>
                                     if n > 5
                                     then (if py_print L 153 [JInt (int n - 5)] then None
                                           else Some PrintError)
                                     else None))))))"

text \<open>
  The \<open>try\<close> of lines 128 to 160: the exit code of the process and the files it leaves.
  \<open>sys.exit(1)\<close> of line 156 is not an \<open>Exception\<close> and leaves through the handler
  untouched; every other exception, those of the \<open>print\<close> calls of lines 129 and 130
  among them, is caught at line 158 and exits with 1 (if the \<open>print\<close> of line 159 raises
  in its turn, the exception is not caught and the interpreter exits with 1 as well); a
  run that reaches the end exits with 0.
\<close>

definition run ::
    "pylib \<Rightarrow> (string \<Rightarrow> http_outcome) \<Rightarrow> fs_fault \<Rightarrow> string \<Rightarrow> int \<Rightarrow> files \<Rightarrow> int \<times> files" where
  "run L net fault output_file sample_size fs =
     (if \<not> py_print L 129 [] then (1, fs)
      else if \<not> py_print L 130 [] then (1, fs)
      else
        (case fetch_seed_data L net SEED_DATA_URL of
           Inl e \<Rightarrow> (1, fs)
         | Inr full_data \<Rightarrow>
             (case create_sample_data L full_data sample_size of
                Inl e \<Rightarrow> (1, fs)
              | Inr (sample_data, full_data') \<Rightarrow>
                  (case save_sample_data L fault sample_data output_file fs of
                     (Some e, fs') \<Rightarrow> (1, fs')
                   | (None, fs') \<Rightarrow>
                       if validate_sample_data L output_file fs'
                       then (case report L fs' output_file sample_data full_data' of
                               Some e \<Rightarrow> (1, fs')
                             | None \<Rightarrow> (0, fs'))
                       else (1, fs')))))"

text \<open>
  Lines 112 to 126: \<open>argv\<close> is \<open>sys.argv\<close> (the script first), \<open>default_output\<close> the path
  beside the script; a sample size that \<open>int()\<close> refuses leaves the default 10 and is
  reported by the \<open>print\<close> of line 126. That line is outside the \<open>try\<close>: if it raises,
  the exception is not caught and the interpreter exits with 1 before anything is fetched.
\<close>

definition output_file_arg :: "string \<Rightarrow> string list \<Rightarrow> string" where
  "output_file_arg default_output argv =
     (if length argv > 1 then argv ! 1 else default_output)"

definition sample_size_arg :: "pylib \<Rightarrow> string list \<Rightarrow> int" where
  "sample_size_arg L argv =
     (if length argv > 2
      then (case py_int L (argv ! 2) of None \<Rightarrow> 10 | Some n \<Rightarrow> n)
      else 10)"

definition main ::
    "pylib \<Rightarrow> (string \<Rightarrow> http_outcome) \<Rightarrow> fs_fault \<Rightarrow> string \<Rightarrow> string list \<Rightarrow> files \<Rightarrow> int \<times> files" where
  "main L net fault default_output argv fs =
     (if length argv > 2 \<and> py_int L (argv ! 2) = None \<and>
         \<not> py_print L 126 [JStr (argv ! 2), JInt 10]
      then (1, fs)
      else run L net fault (output_file_arg default_output argv) (sample_size_arg L argv) fs)"

subsection \<open>The words of the specification\<close>

text \<open>
  A Registry Record (section 3 of the specification) is a mapping with a \<open>name\<close> that is
  a string; \<open>description\<close> and \<open>version\<close> may be missing.
\<close>

fun registry_record :: "json \<Rightarrow> bool" where
  "registry_record (JObj d) = (case map_of d ''name'' of Some (JStr s) \<Rightarrow> True | _ \<Rightarrow> False)"
| "registry_record _ = False"

fun is_dict :: "json \<Rightarrow> bool" where
  "is_dict (JObj d) = True"
| "is_dict _ = False"

text \<open>
  The local part of a name (section 4.2): everything after the first \<open>/\<close>, the whole
  name if it has none.
\<close>

definition local_part :: "string \<Rightarrow> string" where
  "local_part s =
     (if CHR ''/'' \<in> set s
      then drop (Suc (length (takeWhile (\<lambda>c. c \<noteq> CHR ''/'') s))) s
      else s)"

text \<open>A record that has the three fields the validator asks for.\<close>

fun has_required_fields :: "json \<Rightarrow> bool" where
  "has_required_fields (JObj d) =
     (map_of d ''name'' \<noteq> None \<and> map_of d ''description'' \<noteq> None \<and> map_of d ''version'' \<noteq> None)"
| "has_required_fields _ = False"

text \<open>
  The contract of the \<open>json\<close> module that the script relies on, at one value: what
  \<open>json.dump\<close> prints, \<open>json.load\<close> reads back as the same value.
\<close>

definition round_trips :: "pylib \<Rightarrow> json \<Rightarrow> bool" where
  "round_trips L v = (json_loads L (json_dumps L v) = Some v)"

text \<open>
  The four stages of a run (fetch, sample, write, validate) all succeed.
\<close>

definition stages_succeed ::
    "pylib \<Rightarrow> (string \<Rightarrow> http_outcome) \<Rightarrow> fs_fault \<Rightarrow> string \<Rightarrow> int \<Rightarrow> files \<Rightarrow> bool" where
  "stages_succeed L net fault output_file sample_size fs =
     (case fetch_seed_data L net SEED_DATA_URL of
        Inl e \<Rightarrow> False
      | Inr full_data \<Rightarrow>
          (case create_sample_data L full_data sample_size of
             Inl e \<Rightarrow> False
           | Inr (sample_data, full_data') \<Rightarrow>
               (case save_sample_data L fault sample_data output_file fs of
                  (Some e, fs') \<Rightarrow> False
                | (None, fs') \<Rightarrow> validate_sample_data L output_file fs')))"

text \<open>
  A finite part of the library, to run the script on concrete inputs: a table of JSON
  texts and the values they stand for, read in one direction by the parser and in the
  other by the printer, and a console that takes every text.
\<close>

definition table_lib :: "(string \<times> json) list \<Rightarrow> pylib" where
  "table_lib tbl =
     \<lparr>json_loads = map_of tbl,
      json_dumps = (\<lambda>v. case map_of (map (\<lambda>(s, w). (w, s)) tbl) v of None \<Rightarrow> [] | Some s \<Rightarrow> s),
      py_str = (\<lambda>v. []),
      py_int = (\<lambda>s. None),
      py_print = (\<lambda>line values. True)\<rparr>"

section \<open>Properties\<close>

subsection \<open>Loops and indices\<close>

lemma collect_Inr_D: "collect f xs = Inr ys \<Longrightarrow> list_all2 (\<lambda>x y. f x = Inr y) xs ys"
  by (induction xs arbitrary: ys) (auto split: sum.splits)

lemma collect_Inr_I: "list_all2 (\<lambda>x y. f x = Inr y) xs ys \<Longrightarrow> collect f xs = Inr ys"
  by (induction xs ys rule: list_all2_induct) auto

lemma collect_map: "(\<And>x. x \<in> set xs \<Longrightarrow> f x = Inr (g x)) \<Longrightarrow> collect f xs = Inr (map g xs)"
  by (induction xs) auto

lemma collect_of_map: "collect f (map g xs) = collect (\<lambda>x. f (g x)) xs"
  by (induction xs) (auto split: sum.splits)

lemma spread_bound:
  fixes n k j :: nat
  assumes "0 < k" "k < n" "j < k"
  shows "j * (n div k) < n"
proof -
  have pos: "0 < n div k" using assms by (simp add: div_greater_zero_iff)
  have "j * (n div k) < k * (n div k)" using assms pos by simp
  also have "\<dots> \<le> n" by simp
  finally show ?thesis .
qed

lemma sample_indices_nat:
  assumes "1 \<le> k"
  shows "map (\<lambda>i. i * (int n div k)) (py_range k) = map (\<lambda>j. int (j * (n div nat k))) [0..<nat k]"
proof -
  have "int n div k = int (n div nat k)"
    using assms by (simp add: zdiv_int)
  then show ?thesis by (simp add: py_range_def)
qed

lemma getitem_nat:
  assumes "i < length xs"
  shows "py_getitem (JArr xs) (int i) = Inr (xs ! i)"
  using assms by (simp add: py_index_def)

lemma collect_getitem_spread:
  assumes "0 < K" "K < length xs"
  shows "collect (py_getitem (JArr xs)) (map (\<lambda>j. int (j * (length xs div K))) [0..<K])
         = Inr (map (\<lambda>j. xs ! (j * (length xs div K))) [0..<K])"
proof -
  have "collect (\<lambda>j. py_getitem (JArr xs) (int (j * (length xs div K)))) [0..<K]
        = Inr (map (\<lambda>j. xs ! (j * (length xs div K))) [0..<K])"
  proof (rule collect_map)
    fix j assume "j \<in> set [0..<K]"
    then have "j * (length xs div K) < length xs"
      using assms by (simp add: spread_bound)
    then show "py_getitem (JArr xs) (int (j * (length xs div K))) = Inr (xs ! (j * (length xs div K)))"
      by (rule getitem_nat)
  qed
  then show ?thesis by (simp only: collect_of_map)
qed

lemma spread_unfold:
  assumes "1 \<le> k" "k < int (length xs)"
  shows "create_sample_data L (JArr xs) k =
    (case collect (rewrite_server L) (map (\<lambda>j. xs ! (j * (length xs div nat k))) [0..<nat k]) of
       Inl e \<Rightarrow> Inl e
     | Inr ys \<Rightarrow> Inr (JArr ys,
         JArr (store_back xs (map (\<lambda>j. int (j * (length xs div nat k))) [0..<nat k]) ys)))"
proof -
  have K: "0 < nat k" "nat k < length xs" using assms by auto
  show ?thesis
    using assms
    by (simp add: create_sample_data_def py_floordiv_def sample_indices_nat
        collect_getitem_spread[OF K] del: of_nat_mult split: sum.splits)
qed

subsection \<open>The rewriting of one record\<close>

lemma last_split1:
  assumes "c \<in> set s"
  shows "last (py_split1 s c) = drop (Suc (length (takeWhile (\<lambda>x. x \<noteq> c) s))) s"
proof -
  have ne: "dropWhile (\<lambda>x. x \<noteq> c) s \<noteq> []"
    using assms by (simp add: dropWhile_eq_Nil_conv) 
  then obtain y rest where d: "dropWhile (\<lambda>x. x \<noteq> c) s = y # rest"
    by (cases "dropWhile (\<lambda>x. x \<noteq> c) s") auto
  have "drop (Suc (length (takeWhile (\<lambda>x. x \<noteq> c) s))) s = tl (dropWhile (\<lambda>x. x \<noteq> c) s)"
    by (simp add: dropWhile_eq_drop drop_Suc tl_drop)
  with d show ?thesis by (simp add: py_split1_def)
qed

lemma namespace_part_str: "namespace_part (JStr s) = Inr (JStr (local_part s))"
  by (simp add: local_part_def last_split1)

lemma rewrite_server_record:
  assumes "registry_record x"
  obtains d nm where "x = JObj d" "map_of d ''name'' = Some (JStr nm)"
    "rewrite_server L x = Inr (JObj (set_version (set_description L (set_name L (JStr (local_part nm)) d))))"
proof (cases x)
  case (JObj d)
  with assms obtain nm where "map_of d ''name'' = Some (JStr nm)"
    by (auto split: option.splits json.splits)
  with JObj that show ?thesis by (simp add: namespace_part_str del: namespace_part.simps)
qed (use assms in auto)

lemma rewrite_server_Inr:
  assumes "rewrite_server L x = Inr y"
  obtains d v part where "x = JObj d" "map_of d ''name'' = Some v" "namespace_part v = Inr part"
    "y = JObj (set_version (set_description L (set_name L part d)))"
  using assms by (cases x) (auto split: option.splits sum.splits)

lemma name_after:
  "map_of (set_version (set_description L (set_name L part d))) ''name''
     = Some (JStr (''io.modelcontextprotocol.anonymous/'' @ py_format L part))"
  by (simp add: set_version_def set_description_def set_name_def update_conv' split: option.splits)

lemma description_after:
  "map_of (set_version (set_description L (set_name L part d))) ''description''
     = Some (JStr (''[DEMO] '' @ py_format L (case map_of d ''description'' of
                         None \<Rightarrow> JStr ''No description'' | Some v \<Rightarrow> v)))"
  by (simp add: set_version_def set_description_def set_name_def update_conv' split: option.splits)

lemma version_after:
  "map_of (set_version (set_description L (set_name L part d))) ''version''
     = (case map_of d ''version'' of
          None \<Rightarrow> Some (JStr ''1.0.0'')
        | Some v \<Rightarrow> if py_truthy v then Some v else Some (JStr ''1.0.0''))"
  by (simp add: set_version_def set_description_def set_name_def update_conv' split: option.splits)

lemma other_after:
  assumes "f \<noteq> ''name''" "f \<noteq> ''description''" "f \<noteq> ''version''"
  shows "map_of (set_version (set_description L (set_name L part d))) f = map_of d f"
  using assms
  by (simp add: set_version_def set_description_def set_name_def update_conv' split: option.splits)

lemma store_back_length: "length (store_back xs idxs ss) = length xs"
  by (induction xs idxs ss rule: store_back.induct) (auto split: sum.splits)

lemma store_back_other:
  assumes "\<forall>j \<in> set idxs. j \<noteq> int i" "\<forall>j \<in> set idxs. 0 \<le> j"
  shows "store_back xs idxs ss ! i = xs ! i"
  using assms
  by (induction xs idxs ss rule: store_back.induct)
     (auto simp: py_index_def split: sum.splits if_splits)

lemma store_back_nth:
  assumes "distinct js" "\<forall>j \<in> set js. j < length xs" "length ss = length js" "m < length js"
  shows "store_back xs (map int js) ss ! (js ! m) = ss ! m"
  using assms
proof (induction js arbitrary: xs ss m)
  case Nil
  then show ?case by simp
next
  case (Cons j js)
  then obtain s ss' where ss: "ss = s # ss'" by (cases ss) auto
  have idx: "py_index (length xs) (int j) = Inr j"
    using Cons.prems by (simp add: py_index_def)
  show ?case
  proof (cases m)
    case 0
    have "store_back (xs[j := s]) (map int js) ss' ! j = (xs[j := s]) ! j"
      using Cons.prems by (intro store_back_other) auto
    with 0 ss idx Cons.prems show ?thesis by simp
  next
    case (Suc m')
    with Cons.prems ss have "store_back (xs[j := s]) (map int js) ss' ! (js ! m') = ss' ! m'"
      by (intro Cons.IH) auto
    with Suc ss idx show ?thesis by simp
  qed
qed

subsection \<open>The three ranges of the sample size\<close>

lemma small_unfold:
  assumes "int (length xs) \<le> k"
  shows "create_sample_data L (JArr xs) k = Inr (JArr xs, JArr xs)"
  using assms by (simp add: create_sample_data_def)

lemma negative_unfold:
  assumes "k < 0"
  shows "create_sample_data L (JArr xs) k = Inr (JArr [], JArr xs)"
  using assms by (simp add: create_sample_data_def py_floordiv_def py_range_def)

lemma zero_unfold:
  assumes "xs \<noteq> []"
  shows "create_sample_data L (JArr xs) 0 = Inl ZeroDivisionError"
  using assms by (simp add: create_sample_data_def py_floordiv_def)

lemma collect_records:
  assumes "\<forall>x \<in> set zs. registry_record x"
  shows "\<exists>ys. collect (rewrite_server L) zs = Inr ys"
  using assms
proof (induction zs)
  case Nil
  then show ?case by simp
next
  case (Cons z zs)
  then obtain ys where "collect (rewrite_server L) zs = Inr ys" by auto
  moreover obtain y where "rewrite_server L z = Inr y"
    using Cons.prems by (auto elim: rewrite_server_record[of z L])
  ultimately show ?case by simp
qed

lemma collect_nth:
  assumes "collect f xs = Inr ys"
  shows "length ys = length xs" and "\<And>j. j < length xs \<Longrightarrow> f (xs ! j) = Inr (ys ! j)"
  using collect_Inr_D[OF assms] by (auto simp: list_all2_conv_all_nth)

lemma large_cases:
  assumes "k < int (length xs)" "create_sample_data L (JArr xs) k = Inr (sample, fd)"
  shows "(k < 0 \<and> sample = JArr [] \<and> fd = JArr xs) \<or>
    (1 \<le> k \<and> (\<exists>ys. collect (rewrite_server L)
        (map (\<lambda>j. xs ! (j * (length xs div nat k))) [0..<nat k]) = Inr ys \<and> sample = JArr ys \<and>
        fd = JArr (store_back xs (map (\<lambda>j. int (j * (length xs div nat k))) [0..<nat k]) ys)))"
proof -
  consider "k < 0" | "k = 0" | "1 \<le> k" by linarith
  then show ?thesis
  proof cases
    case 1
    then show ?thesis using assms(2) by (simp add: negative_unfold)
  next
    case 2
    then have "xs \<noteq> []" using assms(1) by auto
    then show ?thesis using assms(2) 2 by (simp add: zero_unfold)
  next
    case 3
    then show ?thesis
      using assms(2) by (auto simp: spread_unfold[OF 3 assms(1)] split: sum.splits)
  qed
qed

lemma rewrite_server_other:
  assumes "rewrite_server L x = Inr y" "f \<noteq> ''name''" "f \<noteq> ''description''" "f \<noteq> ''version''"
  shows "py_getkey y f = py_getkey x f"
proof -
  from assms(1) obtain d v part where "x = JObj d"
      "y = JObj (set_version (set_description L (set_name L part d)))"
    by (rule rewrite_server_Inr)
  then show ?thesis using assms(2-4) by (simp add: other_after)
qed

lemma spread_store_back:
  fixes xs :: "json list" and K :: nat
  assumes K: "0 < K" "K < length xs" and len: "length ys = K"
  defines "step \<equiv> length xs div K"
  defines "xs' \<equiv> store_back xs (map (\<lambda>j. int (j * step)) [0..<K]) ys"
  shows "length xs' = length xs"
    and "\<And>i. \<forall>j<K. i \<noteq> j * step \<Longrightarrow> xs' ! i = xs ! i"
    and "\<And>j. j < K \<Longrightarrow> xs' ! (j * step) = ys ! j"
proof -
  let ?js = "map (\<lambda>j. j * step) [0..<K]"
  have idx: "map (\<lambda>j. int (j * step)) [0..<K] = map int ?js" by simp
  have step: "0 < step" using K by (simp add: step_def div_greater_zero_iff)
  show "length xs' = length xs" by (simp add: xs'_def store_back_length)
  show "xs' ! i = xs ! i" if "\<forall>j<K. i \<noteq> j * step" for i
    unfolding xs'_def using that by (intro store_back_other) (auto simp flip: of_nat_mult)
  show "xs' ! (j * step) = ys ! j" if "j < K" for j
  proof -
    have "distinct ?js" using step by (simp add: distinct_map inj_on_def)
    moreover have "\<forall>i \<in> set ?js. i < length xs"
      using K by (auto simp: step_def spread_bound)
    moreover have "length ys = length ?js" using len by simp
    moreover have "j < length ?js" using that by simp
    ultimately have "store_back xs (map int ?js) ys ! (?js ! j) = ys ! j"
      by (rule store_back_nth)
    then show ?thesis using that unfolding xs'_def idx by simp
  qed
qed

subsection \<open>The validator and the report\<close>

lemma check_server_None:
  "check_server i x fs = None \<longleftrightarrow> (\<forall>f \<in> set fs. py_contains x f = Inr True)"
  by (induction fs) (auto split: sum.splits)

lemma check_servers_None:
  "check_servers i xs = None \<longleftrightarrow> (\<forall>x \<in> set xs. \<forall>f \<in> set required_fields. py_contains x f = Inr True)"
proof (induction xs arbitrary: i)
  case Nil
  then show ?case by simp
next
  case (Cons x xs)
  show ?case
    using Cons[of "Suc i"] check_server_None[of i x required_fields]
    by (cases "check_server i x required_fields") auto
qed

lemma dict_fields:
  assumes "is_dict x"
  shows "(\<forall>f \<in> set required_fields. py_contains x f = Inr True) \<longleftrightarrow> has_required_fields x"
  using assms by (cases x) (auto simp: required_fields_def)

lemma validate_checks_written:
  assumes "round_trips L (JArr xs)"
  shows "validate_checks L out (fs(out \<mapsto> json_dumps L (JArr xs))) =
     (if xs = [] then Inl No_servers
      else case check_servers 0 xs of Some e \<Rightarrow> Inl e | None \<Rightarrow> Inr (length xs))"
  using assms by (simp add: validate_checks_def round_trips_def)

lemma py_len_after_loop: "py_len (after_loop v idxs ss) = py_len v"
  by (cases v) (simp_all add: store_back_length)

lemma rewritten_is_dict:
  assumes "collect (rewrite_server L) zs = Inr ys" "y \<in> set ys"
  shows "is_dict y"
proof -
  from assms(2) obtain j where j: "j < length ys" "ys ! j = y" by (auto simp: in_set_conv_nth)
  then have "rewrite_server L (zs ! j) = Inr y"
    using collect_nth[OF assms(1)] by simp
  then show ?thesis by (auto elim: rewrite_server_Inr)
qed

lemma create_sample_data_shape:
  assumes "create_sample_data L fd k = Inr (s, fd')"
  shows "(\<exists>m. py_len fd' = Inr m) \<and> (\<exists>m. py_len s = Inr m) \<and>
         (s = fd \<or> (\<exists>ys. s = JArr ys \<and> (\<forall>y \<in> set ys. is_dict y)))"
proof -
  from assms obtain n where n: "py_len fd = Inr n"
    by (auto simp: create_sample_data_def split: sum.splits)
  show ?thesis
  proof (cases "int n \<le> k")
    case True
    with assms n show ?thesis by (auto simp: create_sample_data_def)
  next
    case False
    with assms n obtain step zs ys where
      "collect (rewrite_server L) zs = Inr ys" "s = JArr ys"
      "fd' = after_loop fd (map (\<lambda>i. i * step) (py_range k)) ys"
      by (auto simp: create_sample_data_def Let_def split: sum.splits)
    with n show ?thesis by (auto simp: py_len_after_loop dest: rewritten_is_dict)
  qed
qed

lemma show_servers_dicts:
  assumes "\<forall>y \<in> set ys. is_dict y \<and> py_contains y ''name'' = Inr True"
    and "\<And>line values. py_print L line values"
  shows "show_servers L i ys = None"
  using assms(1)
proof (induction ys arbitrary: i)
  case Nil
  then show ?case by simp
next
  case (Cons y ys)
  then have "is_dict y" "py_contains y ''name'' = Inr True" by auto
  then obtain v where "py_getkey y ''name'' = Inr v"
    by (cases y) (auto split: option.splits)
  with Cons assms(2) show ?case by simp
qed

lemma report_dicts:
  assumes "\<forall>y \<in> set ys. is_dict y \<and> py_contains y ''name'' = Inr True"
    and "\<And>line values. py_print L line values"
    and "py_len fd' = Inr m" "fs out = Some text"
  shows "report L fs out (JArr ys) fd' = None"
proof -
  have "\<forall>y \<in> set (take 5 ys). is_dict y \<and> py_contains y ''name'' = Inr True"
    using assms(1) by (auto dest: in_set_takeD)
  then have "show_servers L 0 (take 5 ys) = None"
    using assms(2) by (rule show_servers_dicts)
  with assms(2-4) show ?thesis by (simp add: report_def)
qed

text \<open>
  Where the exit code follows the four stages: on a console that takes every text, with
  a \<open>json\<close> module that reads the sample back as printed, for a fetched array whose
  elements are all objects.
\<close>

lemma exit_code_of_records:
  assumes prints: "\<And>line values. py_print L line values"
    and trip: "\<And>fd s fd'. fetch_seed_data L net SEED_DATA_URL = Inr fd \<Longrightarrow>
             create_sample_data L fd (sample_size_arg L argv) = Inr (s, fd') \<Longrightarrow> round_trips L s"
    and records: "\<And>xs. fetch_seed_data L net SEED_DATA_URL = Inr (JArr xs) \<Longrightarrow> \<forall>x \<in> set xs. is_dict x"
  shows "fst (main L net fault default_output argv fs) =
     (if stages_succeed L net fault (output_file_arg default_output argv) (sample_size_arg L argv) fs
      then 0 else 1)"
proof (cases "fetch_seed_data L net SEED_DATA_URL")
  case (Inl e)
  then show ?thesis by (simp add: main_def run_def stages_succeed_def prints)
next
  case fetched: (Inr fd)
  let ?k = "sample_size_arg L argv"
  let ?out = "output_file_arg default_output argv"
  show ?thesis
  proof (cases "create_sample_data L fd ?k")
    case (Inl e)
    with fetched show ?thesis by (simp add: main_def run_def stages_succeed_def prints)
  next
    case (Inr p)
    then obtain s fd' where sampled: "create_sample_data L fd ?k = Inr (s, fd')" by (cases p) auto
    show ?thesis
    proof (cases "fault = No_fault")
      case False
      then have "fst (save_sample_data L fault s ?out fs) \<noteq> None"
        by (cases fault) (simp_all add: save_sample_data_def)
      with fetched sampled show ?thesis
        by (auto simp: main_def run_def stages_succeed_def prints split: prod.splits option.splits)
    next
      case True
      let ?fs' = "fs(?out \<mapsto> json_dumps L s)"
      from create_sample_data_shape[OF sampled] obtain m m' where
        m: "py_len fd' = Inr m" and m': "py_len s = Inr m'"
        and shape: "s = fd \<or> (\<exists>zs. s = JArr zs \<and> (\<forall>y \<in> set zs. is_dict y))"
        by blast
      have saved: "save_sample_data L fault s ?out fs = (None, ?fs')"
        using True m' by (simp add: save_sample_data_def)
      show ?thesis
      proof (cases "validate_sample_data L ?out ?fs'")
        case False
        with fetched sampled saved show ?thesis
          by (simp add: main_def run_def stages_succeed_def prints)
      next
        case valid: True
        have rt: "json_loads L (json_dumps L s) = Some s"
          using trip[OF fetched sampled] by (simp add: round_trips_def)
        from valid rt obtain ys where ys: "s = JArr ys" "check_servers 0 ys = None"
          by (auto simp: validate_sample_data_def validate_checks_def
              split: sum.splits json.splits if_splits option.splits)
        have dicts: "\<forall>y \<in> set ys. is_dict y"
          using shape ys(1) records fetched by auto
        have "\<forall>y \<in> set ys. py_contains y ''name'' = Inr True"
          using ys(2) by (simp add: check_servers_None required_fields_def)
        with dicts have "report L ?fs' ?out (JArr ys) fd' = None"
          using report_dicts[of ys L fd' m ?fs' ?out] prints m by simp
        with fetched sampled saved valid ys(1) show ?thesis
          by (simp add: main_def run_def stages_succeed_def prints)
      qed
    qed
  qed
qed

lemma rewritten_has_required_fields:
  assumes "rewrite_server L x = Inr y"
  shows "has_required_fields y"
proof -
  from assms obtain d v part where "y = JObj (set_version (set_description L (set_name L part d)))"
    by (rule rewrite_server_Inr)
  then show ?thesis
    by (simp add: name_after description_after version_after split: option.splits)
qed

lemma run_failure:
  assumes "\<not> stages_succeed L net fault output_file sample_size fs"
  shows "fst (run L net fault output_file sample_size fs) = 1"
  using assms
  by (auto simp: run_def stages_succeed_def split: sum.splits prod.splits option.splits)

subsection \<open>The sampler\<close>

text \<open>
  C1. For a list of \<open>n\<close> Registry Records and a sample size \<open>k\<close> with \<open>n > k \<ge> 1\<close>,
  \<open>create_sample_data\<close> returns exactly \<open>k\<close> records; record \<open>j\<close> of the sample is
  the rewritten record of the input at index \<open>j * step\<close> with \<open>step = n div k\<close>; these
  indices are strictly increasing and every one of them is below \<open>n\<close>.
\<close>

theorem sampler_spread:
  assumes "1 \<le> k" "k < int (length xs)" "\<forall>x \<in> set xs. registry_record x"
  shows "\<exists>ys fd. create_sample_data L (JArr xs) k = Inr (JArr ys, fd) \<and> length ys = nat k \<and>
     (\<forall>j < nat k. j * (length xs div nat k) < length xs \<and>
        rewrite_server L (xs ! (j * (length xs div nat k))) = Inr (ys ! j)) \<and>
     (\<forall>i j. i < j \<and> j < nat k \<longrightarrow> i * (length xs div nat k) < j * (length xs div nat k))"
proof -
  let ?K = "nat k"
  let ?step = "length xs div ?K"
  let ?sel = "map (\<lambda>j. xs ! (j * ?step)) [0..<?K]"
  have K: "0 < ?K" "?K < length xs" using assms by auto
  have bound: "j * ?step < length xs" if "j < ?K" for j
    using K that by (simp add: spread_bound)
  have step: "0 < ?step" using K by (simp add: div_greater_zero_iff)
  have "\<forall>x \<in> set ?sel. registry_record x"
    using assms(3) bound by auto
  then obtain ys where ys: "collect (rewrite_server L) ?sel = Inr ys"
    using collect_records by blast
  have len: "length ys = ?K" using collect_nth(1)[OF ys] by simp
  have nth: "rewrite_server L (xs ! (j * ?step)) = Inr (ys ! j)" if "j < ?K" for j
    using collect_nth(2)[OF ys, of j] that by simp
  have "create_sample_data L (JArr xs) k = Inr (JArr ys,
          JArr (store_back xs (map (\<lambda>j. int (j * ?step)) [0..<?K]) ys))"
    using ys by (simp add: spread_unfold[OF assms(1,2)])
  with len nth bound step show ?thesis by auto
qed

theorem sampler_spread_witness:
  "\<exists>ys fd. create_sample_data (table_lib [])
       (JArr [JObj [(''name'', JStr ''acme/tool'')], JObj [(''name'', JStr ''solo'')],
              JObj [(''name'', JStr ''org/kit'')]]) 2 = Inr (JArr ys, fd) \<and> length ys = 2"
  using sampler_spread [of 2 "[JObj [(''name'', JStr ''acme/tool'')], JObj [(''name'', JStr ''solo'')],
              JObj [(''name'', JStr ''org/kit'')]]" "table_lib []"]
  by simp blast

text \<open>
  C2. With \<open>n \<le> k\<close> the function returns the input as it is, every record with every
  field, and leaves the input unchanged.
\<close>

theorem sampler_verbatim:
  assumes "int (length xs) \<le> k"
  shows "create_sample_data L (JArr xs) k = Inr (JArr xs, JArr xs)"
  using assms by (simp add: create_sample_data_def)

theorem sampler_verbatim_witness:
  "create_sample_data (table_lib []) (JArr [JObj [(''name'', JStr ''acme/tool'')], JNull]) 10
     = Inr (JArr [JObj [(''name'', JStr ''acme/tool'')], JNull],
            JArr [JObj [(''name'', JStr ''acme/tool'')], JNull])"
  using sampler_verbatim [of "[JObj [(''name'', JStr ''acme/tool'')], JNull]" 10 "table_lib []"]
  by simp

text \<open>
  C3. With \<open>n > k \<ge> 1\<close>, record \<open>j\<close> of the sample has the name
  \<open>io.modelcontextprotocol.anonymous/\<close> followed by the local part of the original name,
  the description \<open>[DEMO] \<close> followed by the original description (\<open>No description\<close> if
  there was none), and the version \<open>1.0.0\<close> if the original version was missing or
  falsy, else the original version.
\<close>

theorem sampler_rewrite:
  assumes "1 \<le> k" "k < int (length xs)" "\<forall>x \<in> set xs. registry_record x"
  shows "\<exists>ys fd. create_sample_data L (JArr xs) k = Inr (JArr ys, fd) \<and> length ys = nat k \<and>
     (\<forall>j < nat k. \<exists>d d' nm.
        xs ! (j * (length xs div nat k)) = JObj d \<and> map_of d ''name'' = Some (JStr nm) \<and>
        ys ! j = JObj d' \<and>
        map_of d' ''name'' = Some (JStr (''io.modelcontextprotocol.anonymous/'' @ local_part nm)) \<and>
        map_of d' ''description'' =
          Some (JStr (''[DEMO] '' @ (case map_of d ''description'' of
                                      None \<Rightarrow> ''No description''
                                    | Some v \<Rightarrow> py_format L v))) \<and>
        map_of d' ''version'' =
          (case map_of d ''version'' of
             None \<Rightarrow> Some (JStr ''1.0.0'')
           | Some v \<Rightarrow> if py_truthy v then Some v else Some (JStr ''1.0.0'')))"
proof -
  let ?K = "nat k"
  let ?step = "length xs div ?K"
  let ?sel = "map (\<lambda>j. xs ! (j * ?step)) [0..<?K]"
  have K: "0 < ?K" "?K < length xs" using assms by auto
  have bound: "j * ?step < length xs" if "j < ?K" for j
    using K that by (simp add: spread_bound)
  have "\<forall>x \<in> set ?sel. registry_record x"
    using assms(3) bound by auto
  then obtain ys where ys: "collect (rewrite_server L) ?sel = Inr ys"
    using collect_records by blast
  have len: "length ys = ?K" using collect_nth(1)[OF ys] by simp
  have nth: "rewrite_server L (xs ! (j * ?step)) = Inr (ys ! j)" if "j < ?K" for j
    using collect_nth(2)[OF ys, of j] that by simp
  have fields: "\<exists>d d' nm.
        xs ! (j * ?step) = JObj d \<and> map_of d ''name'' = Some (JStr nm) \<and>
        ys ! j = JObj d' \<and>
        map_of d' ''name'' = Some (JStr (''io.modelcontextprotocol.anonymous/'' @ local_part nm)) \<and>
        map_of d' ''description'' =
          Some (JStr (''[DEMO] '' @ (case map_of d ''description'' of
                                      None \<Rightarrow> ''No description''
                                    | Some v \<Rightarrow> py_format L v))) \<and>
        map_of d' ''version'' =
          (case map_of d ''version'' of
             None \<Rightarrow> Some (JStr ''1.0.0'')
           | Some v \<Rightarrow> if py_truthy v then Some v else Some (JStr ''1.0.0''))"
    if j: "j < ?K" for j
  proof -
    have "registry_record (xs ! (j * ?step))" using assms(3) bound[OF j] by simp
    then obtain d nm where d: "xs ! (j * ?step) = JObj d" "map_of d ''name'' = Some (JStr nm)"
      and rw: "rewrite_server L (xs ! (j * ?step)) =
         Inr (JObj (set_version (set_description L (set_name L (JStr (local_part nm)) d))))"
      by (rule rewrite_server_record)
    let ?d' = "set_version (set_description L (set_name L (JStr (local_part nm)) d))"
    have y: "ys ! j = JObj ?d'" using nth[OF j] rw by simp
    have desc: "map_of ?d' ''description'' =
          Some (JStr (''[DEMO] '' @ (case map_of d ''description'' of
                                      None \<Rightarrow> ''No description''
                                    | Some v \<Rightarrow> py_format L v)))"
      by (simp only: description_after) (simp split: option.splits)
    have nm: "map_of ?d' ''name'' = Some (JStr (''io.modelcontextprotocol.anonymous/'' @ local_part nm))"
      by (simp only: name_after) simp
    from d y nm desc version_after[of L "JStr (local_part nm)" d] show ?thesis by blast
  qed
  have "create_sample_data L (JArr xs) k = Inr (JArr ys,
          JArr (store_back xs (map (\<lambda>j. int (j * ?step)) [0..<?K]) ys))"
    using ys by (simp add: spread_unfold[OF assms(1,2)])
  with len fields show ?thesis by blast
qed

theorem sampler_rewrite_witness:
  "\<exists>ys fd. create_sample_data (table_lib [])
       (JArr [JObj [(''name'', JStr ''acme/tool'')], JObj [(''name'', JStr ''solo'')]]) 1
       = Inr (JArr ys, fd) \<and>
     (\<exists>d'. ys ! 0 = JObj d' \<and>
        map_of d' ''name'' = Some (JStr ''io.modelcontextprotocol.anonymous/tool'') \<and>
        map_of d' ''description'' = Some (JStr ''[DEMO] No description'') \<and>
        map_of d' ''version'' = Some (JStr ''1.0.0''))"
  using sampler_rewrite [of 1 "[JObj [(''name'', JStr ''acme/tool'')], JObj [(''name'', JStr ''solo'')]]" "table_lib []"]
  by (simp add: local_part_def) blast

text \<open>
  C4, as stated for every sample size, fails: with \<open>n \<le> k\<close> the records come back with
  the names they had.
\<close>

theorem sampler_verbatim_name_counterexample:
  "create_sample_data (table_lib []) (JArr [JObj [(''name'', JStr ''acme/tool'')]]) 10
     = Inr (JArr [JObj [(''name'', JStr ''acme/tool'')]], JArr [JObj [(''name'', JStr ''acme/tool'')]])
   \<and> py_getkey (JObj [(''name'', JStr ''acme/tool'')]) ''name'' = Inr (JStr ''acme/tool'')
   \<and> \<not> prefix ''io.modelcontextprotocol.anonymous/'' ''acme/tool''"
  by (simp add: create_sample_data_def)

text \<open>
  C4, amended. With \<open>n > k\<close>, every record of a sample that \<open>create_sample_data\<close>
  returns has a name that is a string starting with \<open>io.modelcontextprotocol.anonymous/\<close>.
\<close>

theorem sampler_prefix:
  assumes "k < int (length xs)" "create_sample_data L (JArr xs) k = Inr (sample, fd)"
  shows "\<exists>ys. sample = JArr ys \<and>
     (\<forall>y \<in> set ys. \<exists>s. py_getkey y ''name'' = Inr (JStr s) \<and>
                        prefix ''io.modelcontextprotocol.anonymous/'' s)"
proof -
  from large_cases[OF assms]
  consider "sample = JArr []"
    | ys where "collect (rewrite_server L)
        (map (\<lambda>j. xs ! (j * (length xs div nat k))) [0..<nat k]) = Inr ys" "sample = JArr ys"
    by blast
  then show ?thesis
  proof cases
    case 1
    then show ?thesis by simp
  next
    case 2
    have "\<exists>s. py_getkey y ''name'' = Inr (JStr s) \<and> prefix ''io.modelcontextprotocol.anonymous/'' s"
      if "y \<in> set ys" for y
    proof -
      from that obtain j where j: "j < length ys" "ys ! j = y" by (auto simp: in_set_conv_nth)
      let ?zs = "map (\<lambda>j. xs ! (j * (length xs div nat k))) [0..<nat k]"
      have "rewrite_server L (?zs ! j) = Inr y"
        using collect_nth[OF 2(1)] j by simp
      then obtain d v part where "y = JObj (set_version (set_description L (set_name L part d)))"
        by (rule rewrite_server_Inr)
      then show ?thesis by (simp add: name_after)
    qed
    with 2 show ?thesis by blast
  qed
qed

theorem sampler_prefix_witness:
  "create_sample_data (table_lib [])
       (JArr [JObj [(''name'', JStr ''acme/tool'')], JObj [(''name'', JStr ''solo'')]]) 1
     = Inr (JArr [JObj [(''name'', JStr ''io.modelcontextprotocol.anonymous/tool''),
                        (''description'', JStr ''[DEMO] No description''),
                        (''version'', JStr ''1.0.0'')]],
            JArr [JObj [(''name'', JStr ''io.modelcontextprotocol.anonymous/tool''),
                        (''description'', JStr ''[DEMO] No description''),
                        (''version'', JStr ''1.0.0'')],
                  JObj [(''name'', JStr ''solo'')]]) \<and>
   (\<exists>s. py_getkey (JObj [(''name'', JStr ''io.modelcontextprotocol.anonymous/tool''),
                          (''description'', JStr ''[DEMO] No description''),
                          (''version'', JStr ''1.0.0'')]) ''name'' = Inr (JStr s) \<and>
        prefix ''io.modelcontextprotocol.anonymous/'' s)"
proof -
  let ?xs = "[JObj [(''name'', JStr ''acme/tool'')], JObj [(''name'', JStr ''solo'')]]"
  let ?out = "JObj [(''name'', JStr ''io.modelcontextprotocol.anonymous/tool''),
                    (''description'', JStr ''[DEMO] No description''),
                    (''version'', JStr ''1.0.0'')]"
  have result: "create_sample_data (table_lib []) (JArr ?xs) 1
      = Inr (JArr [?out], JArr [?out, JObj [(''name'', JStr ''solo'')]])"
    by (simp add: create_sample_data_def py_floordiv_def py_range_def py_index_def
        set_name_def set_description_def set_version_def py_split1_def)
  have "(1::int) < int (length ?xs)" by simp
  from sampler_prefix[OF this result] result show ?thesis by simp
qed

text \<open>
  C5, as stated for every \<open>k \<le> 0\<close>, fails: with \<open>k = 0\<close> and a list that is not
  empty, line 49 divides by zero.
\<close>

theorem sampler_zero_counterexample:
  "create_sample_data (table_lib []) (JArr [JObj [(''name'', JStr ''acme/tool'')]]) 0
     = Inl ZeroDivisionError"
  by (simp add: create_sample_data_def py_floordiv_def)

text \<open>
  C5, amended. For \<open>k < 0\<close>, and for \<open>k = 0\<close> when the list is empty, the function
  returns an empty sample and raises nothing.
\<close>

theorem sampler_nonpositive:
  assumes "k < 0 \<or> (k = 0 \<and> xs = [])"
  shows "create_sample_data L (JArr xs) k = Inr (JArr [], JArr xs)"
  using assms by (auto simp: create_sample_data_def py_floordiv_def py_range_def)

theorem sampler_nonpositive_witness:
  "create_sample_data (table_lib []) (JArr [JNull, JNull]) (- 3) = Inr (JArr [], JArr [JNull, JNull])"
  using sampler_nonpositive [of "- 3" "[JNull, JNull]" "table_lib []"]
  by simp

text \<open>
  C10. A call that returns leaves \<open>full_data\<close> a list of the same length; with
  \<open>n \<le> k\<close> nothing is changed; a record at an index that is not selected is the record
  it was; in every record each field other than \<open>name\<close>, \<open>description\<close> and
  \<open>version\<close> has the value it had (or is missing as before); and with \<open>n > k\<close> the
  records of the sample are the records now at the selected indices.
\<close>

theorem sampler_frame:
  assumes "create_sample_data L (JArr xs) k = Inr (sample, fd)"
  shows "\<exists>xs'. fd = JArr xs' \<and> length xs' = length xs \<and>
     (int (length xs) \<le> k \<longrightarrow> xs' = xs) \<and>
     (\<forall>i<length xs. (\<forall>j<nat k. i \<noteq> j * (length xs div nat k)) \<longrightarrow> xs' ! i = xs ! i) \<and>
     (\<forall>i<length xs. \<forall>f. f \<noteq> ''name'' \<and> f \<noteq> ''description'' \<and> f \<noteq> ''version'' \<longrightarrow>
         py_getkey (xs' ! i) f = py_getkey (xs ! i) f) \<and>
     (k < int (length xs) \<longrightarrow>
        (\<exists>ys. sample = JArr ys \<and> length ys = nat k \<and>
              (\<forall>j<nat k. ys ! j = xs' ! (j * (length xs div nat k)))))"
proof (cases "int (length xs) \<le> k")
  case True
  then have "fd = JArr xs" using assms small_unfold[of xs k L] by auto
  with True show ?thesis by simp
next
  case False
  then have lt: "k < int (length xs)" by simp
  from large_cases[OF lt assms]
  consider (neg) "k < 0" "sample = JArr []" "fd = JArr xs"
    | (pos) ys where "1 \<le> k"
        "collect (rewrite_server L) (map (\<lambda>j. xs ! (j * (length xs div nat k))) [0..<nat k]) = Inr ys"
        "sample = JArr ys"
        "fd = JArr (store_back xs (map (\<lambda>j. int (j * (length xs div nat k))) [0..<nat k]) ys)"
    by blast
  then show ?thesis
  proof cases
    case neg
    then show ?thesis by simp
  next
    case pos
    let ?K = "nat k"
    let ?step = "length xs div ?K"
    let ?xs' = "store_back xs (map (\<lambda>j. int (j * ?step)) [0..<?K]) ys"
    have K: "0 < ?K" "?K < length xs" using pos(1) lt by auto
    have len: "length ys = ?K" using collect_nth(1)[OF pos(2)] by simp
    note sb = spread_store_back[OF K len]
    have rw: "rewrite_server L (xs ! (j * ?step)) = Inr (ys ! j)" if "j < ?K" for j
      using collect_nth(2)[OF pos(2), of j] that by simp
    have other: "py_getkey (?xs' ! i) f = py_getkey (xs ! i) f"
      if "f \<noteq> ''name''" "f \<noteq> ''description''" "f \<noteq> ''version''" for i f
    proof (cases "\<forall>j<?K. i \<noteq> j * ?step")
      case True
      then show ?thesis using sb(2)[of i] by simp
    next
      case False
      then obtain j where j: "j < ?K" "i = j * ?step" by blast
      then have "?xs' ! i = ys ! j" using sb(3)[of j] by simp
      with rewrite_server_other[OF rw[OF j(1)] that] j show ?thesis by simp
    qed
    show ?thesis
      using pos(3,4) lt len sb(1) sb(2) sb(3) other by auto
  qed
qed

theorem sampler_frame_witness:
  "\<exists>xs'. create_sample_data (table_lib [])
       (JArr [JObj [(''name'', JStr ''acme/tool''), (''id'', JInt 7)],
              JObj [(''name'', JStr ''solo'')]]) 1
       = Inr (JArr [JObj [(''name'', JStr ''io.modelcontextprotocol.anonymous/tool''),
                          (''id'', JInt 7),
                          (''description'', JStr ''[DEMO] No description''),
                          (''version'', JStr ''1.0.0'')]], JArr xs') \<and>
     xs' ! 1 = JObj [(''name'', JStr ''solo'')] \<and>
     py_getkey (xs' ! 0) ''id'' = Inr (JInt 7)"
proof -
  let ?xs = "[JObj [(''name'', JStr ''acme/tool''), (''id'', JInt 7)], JObj [(''name'', JStr ''solo'')]]"
  let ?out = "JObj [(''name'', JStr ''io.modelcontextprotocol.anonymous/tool''),
                          (''id'', JInt 7),
                          (''description'', JStr ''[DEMO] No description''),
                          (''version'', JStr ''1.0.0'')]"
  have run: "create_sample_data (table_lib []) (JArr ?xs) 1
      = Inr (JArr [?out], JArr [?out, JObj [(''name'', JStr ''solo'')]])"
    by (simp add: create_sample_data_def py_floordiv_def py_range_def py_index_def
        set_name_def set_description_def set_version_def py_split1_def)
  from sampler_frame[OF run] run show ?thesis by simp
qed

subsection \<open>The fetcher\<close>

text \<open>
  C6. A response with status 200 whose body is the JSON object \<open>{}\<close>: \<open>fetch_seed_data\<close>
  returns the object; the run writes it to the output file and exits with 1 only because
  the validator refuses what was written.
\<close>

theorem fetch_object_passes:
  "fetch_seed_data (table_lib [(''{}'', JObj [])]) (\<lambda>url. Http_response 200 ''{}'') SEED_DATA_URL
     = Inr (JObj []) \<and>
   run (table_lib [(''{}'', JObj [])]) (\<lambda>url. Http_response 200 ''{}'') No_fault ''out.json'' 10 Map.empty
     = (1, [''out.json'' \<mapsto> ''{}''])"
  by (simp add: fetch_seed_data_def run_def table_lib_def create_sample_data_def save_sample_data_def
      validate_sample_data_def validate_checks_def)

subsection \<open>The writer and the validator\<close>

text \<open>
  C9, as stated for every sample list, fails: the empty sample is written and then
  refused by the validator (line 93).
\<close>

theorem empty_sample_counterexample:
  "round_trips (table_lib [(''[]'', JArr [])]) (JArr []) \<and>
   save_sample_data (table_lib [(''[]'', JArr [])]) No_fault (JArr []) ''out.json'' Map.empty
     = (None, [''out.json'' \<mapsto> ''[]'']) \<and>
   validate_checks (table_lib [(''[]'', JArr [])]) ''out.json'' [''out.json'' \<mapsto> ''[]''] = Inl No_servers \<and>
   \<not> validate_sample_data (table_lib [(''[]'', JArr [])]) ''out.json'' [''out.json'' \<mapsto> ''[]'']"
  by (simp add: round_trips_def table_lib_def save_sample_data_def validate_checks_def validate_sample_data_def)

text \<open>
  C9, amended. For a sample list of objects that the \<open>json\<close> module reads back as
  printed, a write that succeeds followed by the validation reports the count of the
  sample and passes exactly when the sample is not empty and every record has \<open>name\<close>,
  \<open>description\<close> and \<open>version\<close>.
\<close>

theorem validate_after_save:
  assumes "round_trips L (JArr xs)" "\<forall>x \<in> set xs. is_dict x"
  shows "(validate_checks L out (snd (save_sample_data L No_fault (JArr xs) out fs)) = Inr n
            \<longleftrightarrow> n = length xs \<and> xs \<noteq> [] \<and> (\<forall>x \<in> set xs. has_required_fields x)) \<and>
         (validate_sample_data L out (snd (save_sample_data L No_fault (JArr xs) out fs))
            \<longleftrightarrow> xs \<noteq> [] \<and> (\<forall>x \<in> set xs. has_required_fields x))"
proof -
  have fields: "check_servers 0 xs = None \<longleftrightarrow> (\<forall>x \<in> set xs. has_required_fields x)"
    using assms(2) by (simp add: check_servers_None dict_fields)
  have written: "snd (save_sample_data L No_fault (JArr xs) out fs) = fs(out \<mapsto> json_dumps L (JArr xs))"
    by (simp add: save_sample_data_def)
  show ?thesis
    unfolding written validate_sample_data_def validate_checks_written[OF assms(1)]
    using fields by (auto split: option.splits)
qed

theorem validate_after_save_witness:
  "validate_checks (table_lib [(''<sample>'', JArr [JObj [(''name'', JStr ''a/b''), (''description'', JStr ''d''), (''version'', JStr ''2'')]])])
      ''out.json'' (snd (save_sample_data (table_lib [(''<sample>'', JArr [JObj [(''name'', JStr ''a/b''), (''description'', JStr ''d''), (''version'', JStr ''2'')]])]) No_fault
         (JArr [JObj [(''name'', JStr ''a/b''), (''description'', JStr ''d''), (''version'', JStr ''2'')]]) ''out.json'' Map.empty)) = Inr 1"
  using validate_after_save [of "table_lib [(''<sample>'', JArr [JObj [(''name'', JStr ''a/b''), (''description'', JStr ''d''), (''version'', JStr ''2'')]])]"
      "[JObj [(''name'', JStr ''a/b''), (''description'', JStr ''d''), (''version'', JStr ''2'')]]" "''out.json''" Map.empty 1]
  by (simp add: round_trips_def table_lib_def)

subsection \<open>The process\<close>

text \<open>
  C7. A response with status 200 whose body is the JSON array of the one string
  \<open>name description version\<close>, printed as \<open>json.dump\<close> prints it: the four stages
  succeed (the validator's \<open>in\<close> finds each field name inside the string) and the file
  is written, yet \<open>server['name']\<close> of line 151 raises and the process exits with 1.
\<close>

theorem string_record_exit_1:
  "stages_succeed
     (table_lib [(''['' @ CHR 0x0A # ''  '' @ CHR 0x22 # ''name description version'' @ CHR 0x22 # CHR 0x0A # '']'',
                  JArr [JStr ''name description version''])])
     (\<lambda>url. Http_response 200
        (''['' @ CHR 0x0A # ''  '' @ CHR 0x22 # ''name description version'' @ CHR 0x22 # CHR 0x0A # '']''))
     No_fault ''out.json'' 10 Map.empty \<and>
   main
     (table_lib [(''['' @ CHR 0x0A # ''  '' @ CHR 0x22 # ''name description version'' @ CHR 0x22 # CHR 0x0A # '']'',
                  JArr [JStr ''name description version''])])
     (\<lambda>url. Http_response 200
        (''['' @ CHR 0x0A # ''  '' @ CHR 0x22 # ''name description version'' @ CHR 0x22 # CHR 0x0A # '']''))
     No_fault ''deploy/sample-seed.json'' [''fetch-seed-data.py'', ''out.json''] Map.empty
   = (1, [''out.json'' \<mapsto>
            ''['' @ CHR 0x0A # ''  '' @ CHR 0x22 # ''name description version'' @ CHR 0x22 # CHR 0x0A # '']''])"
  by (simp add: stages_succeed_def main_def run_def report_def fetch_seed_data_def table_lib_def
      create_sample_data_def save_sample_data_def validate_sample_data_def validate_checks_def
      required_fields_def output_file_arg_def sample_size_arg_def sublist_code)

text \<open>
  C8. If the body of the response is not valid JSON, the process exits with 1 and the
  files are what they were: nothing is created at the output path and a file that was
  there keeps its contents.
\<close>

theorem malformed_body_no_write:
  assumes "net SEED_DATA_URL = Http_response status body" "json_loads L body = None"
  shows "main L net fault default_output argv fs = (1, fs)"
  using assms by (simp add: main_def run_def fetch_seed_data_def)

theorem malformed_body_no_write_witness:
  "main (table_lib []) (\<lambda>url. Http_response 200 ''{name:'') No_fault ''deploy/sample-seed.json''
      [''fetch-seed-data.py'', ''out.json''] [''out.json'' \<mapsto> ''old''] = (1, [''out.json'' \<mapsto> ''old''])"
  using malformed_body_no_write [of "\<lambda>url. Http_response 200 ''{name:''" 200 "''{name:''" "table_lib []"]
  by (simp add: table_lib_def)

end
